theory Spec2Isabelle
  imports Main
begin

section \<open>Data model\<close>

text \<open>
  The store of the application has three slices (\<open>auth\<close>, \<open>crypto\<close>, \<open>portfolio\<close>),
  changed by reducers; the sagas do the input and output (AsyncStorage, the HTTP request)
  and dispatch further actions.

  TypeScript's \<open>number\<close> is erased when the program runs: a field declared \<open>number\<close>
  holds whatever JavaScript value was put there. The type \<open>'v\<close> stands for these values,
  and \<open>*\<close>, \<open>+\<close>, \<open><\<close> and \<open>0\<close> on it are the operators of the JavaScript
  engine, of which nothing is assumed: no law of arithmetic holds unless a theorem states it
  as a hypothesis. In particular a sum or a product is the rounded result the engine gives,
  and it may be infinite or \<open>NaN\<close>.
  Fields that two interfaces share, or that clash with a constant of HOL, carry a suffix.
\<close>

record 'v Coin =
  id_coin :: string
  name_coin :: string
  symbol_coin :: string
  image_coin :: string
  current_price :: 'v
  price_change_percentage_24h :: 'v
  market_cap :: 'v

record 'v PortfolioItem =
  coinId :: string
  name :: string
  symbol :: string
  image_item :: string
  quantity :: 'v
  currentPrice :: 'v
  value_item :: 'v

record 'v PortfolioState =
  items :: "'v PortfolioItem list"
  loading :: bool
  error :: "string option"

record 'v CryptoState =
  coins :: "'v Coin list"
  loading_crypto :: bool
  error_crypto :: "string option"
  lastUpdated :: "nat option"
  refreshing :: "string \<rightharpoonup> bool"

record AuthState =
  isAuthenticated :: bool
  token :: "string option"
  loading_auth :: bool
  error_auth :: "string option"

text \<open>
  The whole application: the three slices of \<open>RootState\<close> and the device's AsyncStorage,
  a map from keys to strings. \<open>setItem_calls\<close> lists the \<open>setItem\<close> calls that completed,
  oldest first, so that the number of store writes of an operation can be stated.
\<close>

record 'v World =
  auth :: AuthState
  crypto :: "'v CryptoState"
  portfolio :: "'v PortfolioState"
  asyncStorage :: "string \<rightharpoonup> string"
  setItem_calls :: "(string \<times> string) list"

text \<open>
  What a \<open>catch\<close> block receives: an \<open>Error\<close> with its message, or any other value.
  \<open>error instanceof Error ? error.message : fallback\<close> is \<open>message_or\<close>.
\<close>

datatype thrown = Error string | NonError

fun message_or :: "thrown \<Rightarrow> string \<Rightarrow> string" where
  "message_or (Error m) fallback = m"
| "message_or NonError fallback = fallback"

text \<open>
  The promise of an AsyncStorage call resolves (\<open>None\<close>) or rejects with a thrown value;
  which of the two is decided by the device, so every saga that calls the storage takes the
  outcome as an argument. A rejected \<open>setItem\<close> leaves the storage as it was.
\<close>

type_synonym outcome = "thrown option"

definition setItem :: "outcome \<Rightarrow> string \<Rightarrow> string \<Rightarrow> 'v World \<Rightarrow> thrown + 'v World" where
  "setItem r k v w =
     (case r of
        Some t \<Rightarrow> Inl t
      | None \<Rightarrow> Inr (w\<lparr>asyncStorage := (asyncStorage w)(k \<mapsto> v),
                         setItem_calls := setItem_calls w @ [(k, v)]\<rparr>))"

text \<open>\<open>Array.prototype.findIndex\<close>: the index of the first match, or \<open>-1\<close>.\<close>

fun findIndex :: "('a \<Rightarrow> bool) \<Rightarrow> 'a list \<Rightarrow> int" where
  "findIndex P [] = -1"
| "findIndex P (x # xs) =
     (if P x then 0 else (let i = findIndex P xs in if i < 0 then -1 else i + 1))"

section \<open>authSlice and authSaga\<close>

definition loginRequest :: "AuthState \<Rightarrow> AuthState" where
  "loginRequest s = s\<lparr>loading_auth := True, error_auth := None\<rparr>"

definition loginSuccess :: "string \<Rightarrow> AuthState \<Rightarrow> AuthState" where
  "loginSuccess payload s =
     s\<lparr>loading_auth := False, isAuthenticated := True, token := Some payload,
       error_auth := None\<rparr>"

definition loginFailure :: "string \<Rightarrow> AuthState \<Rightarrow> AuthState" where
  "loginFailure payload s =
     s\<lparr>loading_auth := False, isAuthenticated := False, token := None,
       error_auth := Some payload\<rparr>"

definition HARDCODED_username :: string where
  "HARDCODED_username = ''admin''"

definition HARDCODED_password :: string where
  "HARDCODED_password = ''admin123''"

text \<open>The decimal digits of \<open>Date.now()\<close>, as the template literal renders them.\<close>

fun decimal :: "nat \<Rightarrow> string" where
  "decimal n =
     (if n < 10 then [''0123456789'' ! n]
      else decimal (n div 10) @ [''0123456789'' ! (n mod 10)])"

declare decimal.simps [simp del]

definition authenticateUser :: "string \<Rightarrow> string \<Rightarrow> nat \<Rightarrow> thrown + string" where
  "authenticateUser username password now =
     (if username = HARDCODED_username \<and> password = HARDCODED_password
      then Inr (''dummy_token_'' @ decimal now)
      else Inl (Error ''Invalid username or password''))"

text \<open>
  \<open>loginSaga\<close>: one \<open>try\<close> block around the authentication, the store write and the
  success action; whatever is thrown inside becomes \<open>loginFailure\<close>.
\<close>

definition loginSaga :: "outcome \<Rightarrow> string \<Rightarrow> string \<Rightarrow> nat \<Rightarrow> 'v World \<Rightarrow> 'v World" where
  "loginSaga r username password now w =
     (case authenticateUser username password now of
        Inl e \<Rightarrow> w\<lparr>auth := loginFailure (message_or e ''Login failed'') (auth w)\<rparr>
      | Inr tok \<Rightarrow>
          (case setItem r ''authToken'' tok w of
             Inl e \<Rightarrow> w\<lparr>auth := loginFailure (message_or e ''Login failed'') (auth w)\<rparr>
           | Inr w' \<Rightarrow> w'\<lparr>auth := loginSuccess tok (auth w')\<rparr>))"

text \<open>
  Dispatching \<open>loginRequest\<close>: the reducer runs first, then the saga that \<open>watchLogin\<close>
  starts for the action.
\<close>

definition login :: "outcome \<Rightarrow> string \<Rightarrow> string \<Rightarrow> nat \<Rightarrow> 'v World \<Rightarrow> 'v World" where
  "login r username password now w =
     loginSaga r username password now (w\<lparr>auth := loginRequest (auth w)\<rparr>)"

section \<open>Plain objects\<close>

text \<open>
  \<open>priceMap\<close> is an object literal \<open>{}\<close>, filled by assignments \<open>priceMap[k] = v\<close> and
  read by \<open>payload[k]\<close>. Such an object inherits from \<open>Object.prototype\<close>: a read of a
  key that is not an own property finds what the prototype has under that name
  (\<open>constructor\<close>, \<open>toString\<close>, \<open>__proto__\<close>, ...), and is \<open>undefined\<close>, here
  \<open>None\<close>, only when the prototype has nothing either. The prototype belongs to the
  engine; it is the argument \<open>proto\<close>. An assignment makes an own property, except under
  the key \<open>__proto__\<close>, whose setter on the prototype ignores a primitive value such as
  a price and makes none.
\<close>

type_synonym 'v plain_object = "string \<rightharpoonup> 'v"

definition object_get :: "(string \<rightharpoonup> 'v) \<Rightarrow> 'v plain_object \<Rightarrow> string \<Rightarrow> 'v option" where
  "object_get proto obj k = (case obj k of Some v \<Rightarrow> Some v | None \<Rightarrow> proto k)"

definition object_set :: "'v plain_object \<Rightarrow> string \<Rightarrow> 'v \<Rightarrow> 'v plain_object" where
  "object_set obj k v = (if k = ''__proto__'' then obj else obj(k \<mapsto> v))"

section \<open>portfolioSlice\<close>

definition addToPortfolioRequest :: "'v PortfolioState \<Rightarrow> 'v PortfolioState" where
  "addToPortfolioRequest s = s\<lparr>loading := True, error := None\<rparr>"

definition addToPortfolioSuccess :: "'v PortfolioItem \<Rightarrow> 'v PortfolioState \<Rightarrow> 'v PortfolioState" where
  "addToPortfolioSuccess payload s =
     (let existingIndex = findIndex (\<lambda>item. coinId item = coinId payload) (items s)
      in s\<lparr>loading := False,
           items := (if existingIndex \<ge> 0 then (items s)[nat existingIndex := payload]
                     else items s @ [payload]),
           error := None\<rparr>)"

definition updatePortfolioItemRequest :: "'v PortfolioState \<Rightarrow> 'v PortfolioState" where
  "updatePortfolioItemRequest s = s\<lparr>loading := True, error := None\<rparr>"

definition updatePortfolioItemSuccess ::
  "'v PortfolioItem \<Rightarrow> 'v PortfolioState \<Rightarrow> 'v PortfolioState" where
  "updatePortfolioItemSuccess payload s =
     (let index = findIndex (\<lambda>item. coinId item = coinId payload) (items s)
      in s\<lparr>loading := False,
           items := (if index \<ge> 0 then (items s)[nat index := payload] else items s),
           error := None\<rparr>)"

definition removeFromPortfolio :: "string \<Rightarrow> 'v PortfolioState \<Rightarrow> 'v PortfolioState" where
  "removeFromPortfolio payload s =
     s\<lparr>items := filter (\<lambda>item. coinId item \<noteq> payload) (items s)\<rparr>"

text \<open>
  \<open>updatePortfolioPrices\<close>: \<open>newPrice !== undefined\<close> holds for an own property of the
  payload and for every name the prototype has.
\<close>

definition updatePortfolioPrices ::
  "(string \<rightharpoonup> 'v) \<Rightarrow> 'v plain_object \<Rightarrow> ('v::times) PortfolioState \<Rightarrow> 'v PortfolioState" where
  "updatePortfolioPrices proto payload s =
     s\<lparr>items := map (\<lambda>item. case object_get proto payload (coinId item) of
                                Some newPrice \<Rightarrow>
                                  item\<lparr>currentPrice := newPrice,
                                       value_item := quantity item * newPrice\<rparr>
                              | None \<Rightarrow> item) (items s)\<rparr>"

definition portfolioFailure :: "string \<Rightarrow> 'v PortfolioState \<Rightarrow> 'v PortfolioState" where
  "portfolioFailure payload s = s\<lparr>loading := False, error := Some payload\<rparr>"

section \<open>portfolioSaga\<close>

text \<open>
  \<open>JSON.stringify\<close> belongs to the JavaScript runtime, not to this repository: the sagas
  take it as the argument \<open>stringify\<close>.
\<close>

definition savePortfolioToStorage ::
  "('v PortfolioItem list \<Rightarrow> string) \<Rightarrow> outcome \<Rightarrow> 'v PortfolioItem list \<Rightarrow> 'v World
     \<Rightarrow> thrown + 'v World" where
  "savePortfolioToStorage stringify r its w =
     (case setItem r ''portfolio'' (stringify its) w of
        Inl e \<Rightarrow> Inl (Error ''Failed to save portfolio to AsyncStorage'')
      | Inr w' \<Rightarrow> Inr w')"

definition addToPortfolioSaga ::
  "('v PortfolioItem list \<Rightarrow> string) \<Rightarrow> outcome \<Rightarrow> ('v::times) Coin \<Rightarrow> 'v \<Rightarrow> 'v World
     \<Rightarrow> 'v World" where
  "addToPortfolioSaga stringify r coin qty w =
     (let val = current_price coin * qty;
          portfolioItem = \<lparr>coinId = id_coin coin, name = name_coin coin,
                           symbol = symbol_coin coin, image_item = image_coin coin,
                           quantity = qty, currentPrice = current_price coin,
                           value_item = val\<rparr>;
          currentItems = items (portfolio w);
          existingIndex = findIndex (\<lambda>item. coinId item = id_coin coin) currentItems;
          updatedItems = (if existingIndex \<ge> 0
                          then currentItems[nat existingIndex := portfolioItem]
                          else currentItems @ [portfolioItem])
      in case savePortfolioToStorage stringify r updatedItems w of
           Inr w' \<Rightarrow> w'\<lparr>portfolio := addToPortfolioSuccess portfolioItem (portfolio w')\<rparr>
         | Inl e \<Rightarrow>
             w\<lparr>portfolio :=
                 portfolioFailure (message_or e ''Failed to add to portfolio'') (portfolio w)\<rparr>)"

definition updatePortfolioItemSaga ::
  "('v PortfolioItem list \<Rightarrow> string) \<Rightarrow> outcome \<Rightarrow> string \<Rightarrow> ('v::times) \<Rightarrow> 'v World
     \<Rightarrow> 'v World" where
  "updatePortfolioItemSaga stringify r cid qty w =
     (let fail = (\<lambda>e. w\<lparr>portfolio :=
                   portfolioFailure (message_or e ''Failed to update portfolio item'')
                     (portfolio w)\<rparr>);
          currentItems = items (portfolio w);
          itemIndex = findIndex (\<lambda>item. coinId item = cid) currentItems
      in if itemIndex < 0 then fail (Error ''Portfolio item not found'')
         else
           (let item = currentItems ! nat itemIndex
            in case find (\<lambda>c. id_coin c = cid) (coins (crypto w)) of
                 None \<Rightarrow> fail (Error ''Coin not found in crypto data'')
               | Some coin \<Rightarrow>
                   (let updatedItem = item\<lparr>quantity := qty,
                                           currentPrice := current_price coin,
                                           value_item := current_price coin * qty\<rparr>;
                        updatedItems = currentItems[nat itemIndex := updatedItem]
                    in case savePortfolioToStorage stringify r updatedItems w of
                         Inl e \<Rightarrow> fail e
                       | Inr w' \<Rightarrow>
                           w'\<lparr>portfolio :=
                                updatePortfolioItemSuccess updatedItem (portfolio w')\<rparr>)))"

text \<open>
  \<open>removeFromPortfolioSaga\<close> runs after the reducer, filters the list it selects once
  more and saves it; a failed save is logged to the console and nothing else happens.
\<close>

definition removeFromPortfolioSaga ::
  "('v PortfolioItem list \<Rightarrow> string) \<Rightarrow> outcome \<Rightarrow> string \<Rightarrow> 'v World \<Rightarrow> 'v World" where
  "removeFromPortfolioSaga stringify r cid w =
     (let currentItems = items (portfolio w);
          updatedItems = filter (\<lambda>item. coinId item \<noteq> cid) currentItems
      in case savePortfolioToStorage stringify r updatedItems w of
           Inr w' \<Rightarrow> w'
         | Inl e \<Rightarrow> w)"

text \<open>Dispatching an action: its reducer first, then the saga watching for it.\<close>

definition dispatch_addToPortfolioRequest ::
  "('v PortfolioItem list \<Rightarrow> string) \<Rightarrow> outcome \<Rightarrow> ('v::times) Coin \<Rightarrow> 'v \<Rightarrow> 'v World
     \<Rightarrow> 'v World" where
  "dispatch_addToPortfolioRequest stringify r coin qty w =
     addToPortfolioSaga stringify r coin qty
       (w\<lparr>portfolio := addToPortfolioRequest (portfolio w)\<rparr>)"

definition dispatch_updatePortfolioItemRequest ::
  "('v PortfolioItem list \<Rightarrow> string) \<Rightarrow> outcome \<Rightarrow> string \<Rightarrow> ('v::times) \<Rightarrow> 'v World
     \<Rightarrow> 'v World" where
  "dispatch_updatePortfolioItemRequest stringify r cid qty w =
     updatePortfolioItemSaga stringify r cid qty
       (w\<lparr>portfolio := updatePortfolioItemRequest (portfolio w)\<rparr>)"

definition dispatch_removeFromPortfolio ::
  "('v PortfolioItem list \<Rightarrow> string) \<Rightarrow> outcome \<Rightarrow> string \<Rightarrow> 'v World \<Rightarrow> 'v World" where
  "dispatch_removeFromPortfolio stringify r cid w =
     removeFromPortfolioSaga stringify r cid
       (w\<lparr>portfolio := removeFromPortfolio cid (portfolio w)\<rparr>)"

section \<open>The handlers of the Dashboard and Portfolio pages\<close>

text \<open>
  \<open>qty\<close> and \<open>newQty\<close> are the values \<open>parseFloat\<close> returns for the text of the input
  field; \<open>qty > 0\<close> is the engine's comparison, false for \<open>NaN\<close>. The pages' local
  input state is not part of the store and is left out.
\<close>

definition handleAddToPortfolio ::
  "('v PortfolioItem list \<Rightarrow> string) \<Rightarrow> outcome \<Rightarrow> ('v::{zero,ord,times}) Coin \<Rightarrow> 'v
     \<Rightarrow> 'v World \<Rightarrow> 'v World" where
  "handleAddToPortfolio stringify r coin qty w =
     (if qty > 0 then dispatch_addToPortfolioRequest stringify r coin qty w else w)"

definition handleUpdateQuantity ::
  "('v PortfolioItem list \<Rightarrow> string) \<Rightarrow> outcome \<Rightarrow> string \<Rightarrow> ('v::{zero,ord,plus,times})
     \<Rightarrow> 'v World \<Rightarrow> 'v World" where
  "handleUpdateQuantity stringify r cid newQty w =
     (if newQty > 0
      then (case find (\<lambda>item. coinId item = cid) (items (portfolio w)) of
              Some currentItem \<Rightarrow>
                (let totalQuantity = quantity currentItem + newQty
                 in dispatch_updatePortfolioItemRequest stringify r cid totalQuantity w)
            | None \<Rightarrow> w)
      else w)"

section \<open>cryptoSlice and cryptoSaga\<close>

definition fetchCryptoDataRequest :: "'v CryptoState \<Rightarrow> 'v CryptoState" where
  "fetchCryptoDataRequest s = s\<lparr>loading_crypto := True, error_crypto := None\<rparr>"

definition fetchCryptoDataSuccess :: "'v Coin list \<Rightarrow> nat \<Rightarrow> 'v CryptoState \<Rightarrow> 'v CryptoState" where
  "fetchCryptoDataSuccess payload now s =
     s\<lparr>loading_crypto := False, coins := payload, lastUpdated := Some now,
       error_crypto := None\<rparr>"

definition fetchCryptoDataFailure :: "string \<Rightarrow> 'v CryptoState \<Rightarrow> 'v CryptoState" where
  "fetchCryptoDataFailure payload s = s\<lparr>loading_crypto := False, error_crypto := Some payload\<rparr>"

text \<open>
  What the HTTP request can do: answer 2xx with a body that parses to a coin list, answer
  with another status (\<open>response.ok\<close> is false; the argument is \<open>statusText\<close>), or reject
  (no connection, or a body that is not JSON).
\<close>

datatype 'v response = Ok "'v Coin list" | NotOk string | Rejected thrown

fun fetchCryptoData :: "'v response \<Rightarrow> thrown + 'v Coin list" where
  "fetchCryptoData (Ok cs) = Inr cs"
| "fetchCryptoData (NotOk statusText) = Inl (Error (''Failed to fetch crypto data: '' @ statusText))"
| "fetchCryptoData (Rejected e) = Inl e"

text \<open>The \<open>forEach\<close> that fills \<open>priceMap\<close>, one assignment for each coin in turn.\<close>

definition priceMap :: "'v Coin list \<Rightarrow> 'v plain_object" where
  "priceMap cs = foldl (\<lambda>m coin. object_set m (id_coin coin) (current_price coin)) Map.empty cs"

definition fetchCryptoDataSaga ::
  "(string \<rightharpoonup> 'v) \<Rightarrow> 'v response \<Rightarrow> nat \<Rightarrow> ('v::times) World \<Rightarrow> 'v World" where
  "fetchCryptoDataSaga proto resp now w =
     (case fetchCryptoData resp of
        Inl e \<Rightarrow>
          w\<lparr>crypto :=
              fetchCryptoDataFailure (message_or e ''Failed to fetch crypto data'') (crypto w)\<rparr>
      | Inr cs \<Rightarrow>
          (let w1 = w\<lparr>crypto := fetchCryptoDataSuccess cs now (crypto w)\<rparr>;
               portfolioItems = items (portfolio w1)
           in if length portfolioItems > 0
              then w1\<lparr>portfolio := updatePortfolioPrices proto (priceMap cs) (portfolio w1)\<rparr>
              else w1))"

definition dispatch_fetchCryptoDataRequest ::
  "(string \<rightharpoonup> 'v) \<Rightarrow> 'v response \<Rightarrow> nat \<Rightarrow> ('v::times) World \<Rightarrow> 'v World" where
  "dispatch_fetchCryptoDataRequest proto resp now w =
     fetchCryptoDataSaga proto resp now (w\<lparr>crypto := fetchCryptoDataRequest (crypto w)\<rparr>)"

section \<open>Initial state\<close>

definition initialState :: "'v World" where
  "initialState =
     \<lparr>auth = \<lparr>isAuthenticated = False, token = None, loading_auth = False, error_auth = None\<rparr>,
      crypto = \<lparr>coins = [], loading_crypto = False, error_crypto = None, lastUpdated = None,
                refreshing = Map.empty\<rparr>,
      portfolio = \<lparr>items = [], loading = False, error = None\<rparr>,
      asyncStorage = Map.empty,
      setItem_calls = []\<rparr>"

section \<open>Example data\<close>

text \<open>
  A fragment of the JavaScript values, enough for the examples. \<open>Num n\<close> is the number
  \<open>n\<close>; the fragment computes sums and products of integers exactly, as the engine
  does while the results stay below \<open>2^53\<close> in magnitude, and every example below
  stays far below that. \<open>Infinite True\<close> is \<open>Infinity\<close> and \<open>Infinite False\<close> is
  \<open>-Infinity\<close>. \<open>Inherited k\<close> is what \<open>Object.prototype\<close> holds under the name
  \<open>k\<close>: a built-in function, or the prototype object itself for \<open>__proto__\<close>.
  \<open>Concat x y\<close> is the string that \<open>+\<close> makes of two operands when one of them is not a
  number. Converted to a number, a built-in function, the prototype object and such a
  string are all \<open>NaN\<close>; a comparison with \<open>NaN\<close> is false.
\<close>

datatype jsvalue =
  Num int | Infinite bool | NotANumber | Inherited string | Concat jsvalue jsvalue

instantiation jsvalue :: "{zero, plus, times, ord}"
begin

definition zero_jsvalue :: jsvalue where
  "zero_jsvalue = Num 0"

fun plus_jsvalue :: "jsvalue \<Rightarrow> jsvalue \<Rightarrow> jsvalue" where
  "plus_jsvalue (Num a) (Num b) = Num (a + b)"
| "plus_jsvalue (Num a) (Infinite t) = Infinite t"
| "plus_jsvalue (Infinite s) (Num b) = Infinite s"
| "plus_jsvalue (Infinite s) (Infinite t) = (if s = t then Infinite s else NotANumber)"
| "plus_jsvalue (Num a) NotANumber = NotANumber"
| "plus_jsvalue (Infinite s) NotANumber = NotANumber"
| "plus_jsvalue NotANumber (Num b) = NotANumber"
| "plus_jsvalue NotANumber (Infinite t) = NotANumber"
| "plus_jsvalue NotANumber NotANumber = NotANumber"
| "plus_jsvalue x y = Concat x y"

fun times_jsvalue :: "jsvalue \<Rightarrow> jsvalue \<Rightarrow> jsvalue" where
  "times_jsvalue (Num a) (Num b) = Num (a * b)"
| "times_jsvalue (Num a) (Infinite t) = (if a = 0 then NotANumber else Infinite (t = (0 < a)))"
| "times_jsvalue (Infinite s) (Num b) = (if b = 0 then NotANumber else Infinite (s = (0 < b)))"
| "times_jsvalue (Infinite s) (Infinite t) = Infinite (s = t)"
| "times_jsvalue x y = NotANumber"

fun less_jsvalue :: "jsvalue \<Rightarrow> jsvalue \<Rightarrow> bool" where
  "less_jsvalue (Num a) (Num b) = (a < b)"
| "less_jsvalue (Num a) (Infinite t) = t"
| "less_jsvalue (Infinite s) (Num b) = (\<not> s)"
| "less_jsvalue (Infinite s) (Infinite t) = (\<not> s \<and> t)"
| "less_jsvalue x y = False"

fun less_eq_jsvalue :: "jsvalue \<Rightarrow> jsvalue \<Rightarrow> bool" where
  "less_eq_jsvalue (Num a) (Num b) = (a \<le> b)"
| "less_eq_jsvalue (Num a) (Infinite t) = t"
| "less_eq_jsvalue (Infinite s) (Num b) = (\<not> s)"
| "less_eq_jsvalue (Infinite s) (Infinite t) = (\<not> s \<or> t)"
| "less_eq_jsvalue x y = False"

instance ..

end


text \<open>The names a plain object inherits from \<open>Object.prototype\<close>.\<close>

definition Object_prototype :: "string \<rightharpoonup> jsvalue" where
  "Object_prototype k =
     (if k \<in> set [''constructor'', ''toString'', ''toLocaleString'', ''valueOf'',
                   ''hasOwnProperty'', ''isPrototypeOf'', ''propertyIsEnumerable'',
                   ''__proto__'', ''__defineGetter__'', ''__defineSetter__'',
                   ''__lookupGetter__'', ''__lookupSetter__'']
      then Some (Inherited k) else None)"

text \<open>
  Two coins as the market endpoint lists them, a coin whose id is a name that plain objects
  inherit, the holdings the add saga makes of them, a stand-in for \<open>JSON.stringify\<close>, and
  the state after a refresh that returned bitcoin and ether and the addition of five
  bitcoins and one ether.
\<close>

definition bitcoin :: "jsvalue Coin" where
  "bitcoin = \<lparr>id_coin = ''bitcoin'', name_coin = ''Bitcoin'', symbol_coin = ''btc'',
              image_coin = ''btc.png'', current_price = Num 50000,
              price_change_percentage_24h = Num 0, market_cap = Num 0\<rparr>"

definition ethereum :: "jsvalue Coin" where
  "ethereum = \<lparr>id_coin = ''ethereum'', name_coin = ''Ethereum'', symbol_coin = ''eth'',
               image_coin = ''eth.png'', current_price = Num 3000,
               price_change_percentage_24h = Num 0, market_cap = Num 0\<rparr>"

definition constructor_coin :: "jsvalue Coin" where
  "constructor_coin = \<lparr>id_coin = ''constructor'', name_coin = ''Constructor'',
                       symbol_coin = ''ctor'', image_coin = ''ctor.png'',
                       current_price = Num 10, price_change_percentage_24h = Num 0,
                       market_cap = Num 0\<rparr>"

definition bitcoin_holding :: "jsvalue \<Rightarrow> jsvalue \<Rightarrow> jsvalue PortfolioItem" where
  "bitcoin_holding q p = \<lparr>coinId = ''bitcoin'', name = ''Bitcoin'', symbol = ''btc'',
                          image_item = ''btc.png'', quantity = q, currentPrice = p,
                          value_item = q * p\<rparr>"

definition ethereum_holding :: "jsvalue \<Rightarrow> jsvalue \<Rightarrow> jsvalue PortfolioItem" where
  "ethereum_holding q p = \<lparr>coinId = ''ethereum'', name = ''Ethereum'', symbol = ''eth'',
                           image_item = ''eth.png'', quantity = q, currentPrice = p,
                           value_item = q * p\<rparr>"

definition constructor_holding :: "jsvalue \<Rightarrow> jsvalue \<Rightarrow> jsvalue \<Rightarrow> jsvalue PortfolioItem" where
  "constructor_holding q p v = \<lparr>coinId = ''constructor'', name = ''Constructor'',
                                symbol = ''ctor'', image_item = ''ctor.png'', quantity = q,
                                currentPrice = p, value_item = v\<rparr>"

definition example_stringify :: "jsvalue PortfolioItem list \<Rightarrow> string" where
  "example_stringify its = (if its = [] then ''[]'' else ''[..]'')"

definition example_world :: "jsvalue World" where
  "example_world =
     initialState
       \<lparr>crypto := \<lparr>coins = [bitcoin, ethereum], loading_crypto = False, error_crypto = None,
                   lastUpdated = Some 0, refreshing = Map.empty\<rparr>,
        portfolio := \<lparr>items = [bitcoin_holding (Num 5) (Num 50000),
                               ethereum_holding (Num 1) (Num 3000)],
                      loading = False, error = None\<rparr>,
        asyncStorage := [''portfolio'' \<mapsto> ''[..]''],
        setItem_calls := [(''portfolio'', ''[..]''), (''portfolio'', ''[..]'')]\<rparr>"

text \<open>
  The state after a refresh that returned the coin called \<open>constructor\<close> and the addition
  of two of it.
\<close>

definition constructor_world :: "jsvalue World" where
  "constructor_world =
     initialState
       \<lparr>crypto := \<lparr>coins = [constructor_coin], loading_crypto = False, error_crypto = None,
                   lastUpdated = Some 0, refreshing = Map.empty\<rparr>,
        portfolio := \<lparr>items = [constructor_holding (Num 2) (Num 10) (Num 20)],
                      loading = False, error = None\<rparr>,
        asyncStorage := [''portfolio'' \<mapsto> ''[..]''],
        setItem_calls := [(''portfolio'', ''[..]'')]\<rparr>"

section \<open>Facts about the list operations\<close>

lemma findIndex_lower: "- 1 \<le> findIndex P xs"
  by (induction xs) (auto simp: Let_def)

lemma findIndex_neg_iff: "findIndex P xs < 0 \<longleftrightarrow> (\<forall>x \<in> set xs. \<not> P x)"
  using findIndex_lower [of P] by (induction xs) (auto simp: Let_def)

text \<open>
  A result that is not negative is an index of the list, so the read
  \<open>currentItems[itemIndex]\<close> of the update saga is in range.
\<close>

lemma findIndex_nonneg:
  "0 \<le> findIndex P xs \<Longrightarrow> nat (findIndex P xs) < length xs \<and> P (xs ! nat (findIndex P xs))"
proof (induction xs)
  case Nil
  then show ?case by simp
next
  case (Cons x xs)
  show ?case
  proof (cases "P x")
    case True
    then show ?thesis by simp
  next
    case False
    with Cons.prems have nn: "0 \<le> findIndex P xs"
      by (auto simp: Let_def split: if_splits)
    with Cons.IH have "nat (findIndex P xs) < length xs \<and> P (xs ! nat (findIndex P xs))"
      by simp
    with False nn show ?thesis
      by (simp add: Let_def nat_add_distrib)
  qed
qed

lemma find_findIndex:
  "find P xs = (if findIndex P xs < 0 then None else Some (xs ! nat (findIndex P xs)))"
proof (induction xs)
  case Nil
  then show ?case by simp
next
  case (Cons x xs)
  then show ?case
    using findIndex_lower [of P xs]
    by (auto simp: Let_def nat_add_distrib)
qed

lemma find_update_first:
  "0 \<le> findIndex P xs \<Longrightarrow> P y \<Longrightarrow> find P (xs[nat (findIndex P xs) := y]) = Some y"
proof (induction xs)
  case Nil
  then show ?case by simp
next
  case (Cons x xs)
  then show ?case
    using findIndex_lower [of P xs]
    by (auto simp: Let_def nat_add_distrib split: if_splits)
qed

lemmas add_defs = dispatch_addToPortfolioRequest_def addToPortfolioSaga_def
  savePortfolioToStorage_def setItem_def addToPortfolioRequest_def addToPortfolioSuccess_def
  portfolioFailure_def

lemmas update_defs = dispatch_updatePortfolioItemRequest_def updatePortfolioItemSaga_def
  savePortfolioToStorage_def setItem_def updatePortfolioItemRequest_def
  updatePortfolioItemSuccess_def portfolioFailure_def

lemmas remove_defs = dispatch_removeFromPortfolio_def removeFromPortfolioSaga_def
  savePortfolioToStorage_def setItem_def removeFromPortfolio_def

lemmas fetch_defs = dispatch_fetchCryptoDataRequest_def fetchCryptoDataSaga_def
  fetchCryptoDataRequest_def fetchCryptoDataSuccess_def fetchCryptoDataFailure_def

section \<open>The example states\<close>

lemma jsvalue_compare [simp]:
  "(0 < Num n) = (0 < n)" "(0 < Infinite s) = s" "(0 < NotANumber) = False"
  "(0 < Inherited k) = False"
  by (simp_all add: zero_jsvalue_def)

text \<open>Both example states are reached from the initial state by a refresh and additions.\<close>

lemma example_fetch:
  "dispatch_fetchCryptoDataRequest Object_prototype (Ok [bitcoin, ethereum]) 0 initialState
     = initialState\<lparr>crypto := \<lparr>coins = [bitcoin, ethereum], loading_crypto = False,
                                 error_crypto = None, lastUpdated = Some 0,
                                 refreshing = Map.empty\<rparr>\<rparr>"
  by (simp add: fetch_defs initialState_def)

lemma example_world_reached:
  "handleAddToPortfolio example_stringify None ethereum (Num 1)
     (handleAddToPortfolio example_stringify None bitcoin (Num 5)
        (dispatch_fetchCryptoDataRequest Object_prototype (Ok [bitcoin, ethereum]) 0
           initialState))
   = example_world"
  unfolding example_fetch
  by (simp add: handleAddToPortfolio_def add_defs initialState_def
        example_world_def bitcoin_def ethereum_def bitcoin_holding_def ethereum_holding_def
        example_stringify_def Let_def)

lemma constructor_fetch:
  "dispatch_fetchCryptoDataRequest Object_prototype (Ok [constructor_coin]) 0 initialState
     = initialState\<lparr>crypto := \<lparr>coins = [constructor_coin], loading_crypto = False,
                                 error_crypto = None, lastUpdated = Some 0,
                                 refreshing = Map.empty\<rparr>\<rparr>"
  by (simp add: fetch_defs initialState_def)

lemma constructor_world_reached:
  "handleAddToPortfolio example_stringify None constructor_coin (Num 2)
     (dispatch_fetchCryptoDataRequest Object_prototype (Ok [constructor_coin]) 0 initialState)
   = constructor_world"
  unfolding constructor_fetch
  by (simp add: handleAddToPortfolio_def add_defs initialState_def
        constructor_world_def constructor_coin_def constructor_holding_def
        example_stringify_def Let_def)

lemma example_world_simps [simp]:
  "items (portfolio example_world)
     = [bitcoin_holding (Num 5) (Num 50000), ethereum_holding (Num 1) (Num 3000)]"
  "coins (crypto example_world) = [bitcoin, ethereum]"
  "error (portfolio example_world) = None"
  "items (portfolio constructor_world) = [constructor_holding (Num 2) (Num 10) (Num 20)]"
  by (simp_all add: example_world_def constructor_world_def)

lemma example_data_simps [simp]:
  "id_coin bitcoin = ''bitcoin''" "id_coin ethereum = ''ethereum''"
  "current_price bitcoin = Num 50000" "current_price ethereum = Num 3000"
  "coinId (bitcoin_holding q p) = ''bitcoin''" "coinId (ethereum_holding q p) = ''ethereum''"
  "quantity (bitcoin_holding q p) = q" "quantity (ethereum_holding q p) = q"
  "currentPrice (bitcoin_holding q p) = p" "currentPrice (ethereum_holding q p) = p"
  "value_item (bitcoin_holding q p) = q * p" "value_item (ethereum_holding q p) = q * p"
  "coinId (constructor_holding q p v) = ''constructor''"
  "quantity (constructor_holding q p v) = q"
  "currentPrice (constructor_holding q p v) = p"
  "value_item (constructor_holding q p v) = v"
  by (simp_all add: bitcoin_def ethereum_def bitcoin_holding_def ethereum_holding_def
        constructor_holding_def)

section \<open>Login\<close>

text \<open>
  C1 (as the code has it). The store write of \<open>loginSaga\<close> sits inside the \<open>try\<close>
  block, so a login ends authenticated exactly when the pair is \<open>admin\<close>/\<open>admin123\<close>
  (compared character by character) and \<open>AsyncStorage.setItem\<close> resolves. Then the token is
  \<open>dummy_token_\<close> followed by the clock's digits, hence not empty, and exactly one entry,
  \<open>authToken\<close>, is written. In every other case the login fails, the token is cleared
  and the store is not written. A pair other than the constant one fails with the message
  \<open>Invalid username or password\<close>; the constant pair with a write rejected by \<open>e\<close>
  fails with the message of \<open>e\<close> when \<open>e\<close> is an \<open>Error\<close>, and with
  \<open>Login failed\<close> otherwise.
\<close>

theorem C1_login:
  fixes w :: "'v World"
  shows
  "(isAuthenticated (auth (login r u p now w)) \<longleftrightarrow> u = ''admin'' \<and> p = ''admin123'' \<and> r = None) \<and>
   (isAuthenticated (auth (login r u p now w)) \<longrightarrow>
      token (auth (login r u p now w)) = Some (''dummy_token_'' @ decimal now) \<and>
      ''dummy_token_'' @ decimal now \<noteq> [] \<and>
      error_auth (auth (login r u p now w)) = None \<and>
      asyncStorage (login r u p now w)
        = (asyncStorage w)(''authToken'' \<mapsto> ''dummy_token_'' @ decimal now) \<and>
      setItem_calls (login r u p now w)
        = setItem_calls w @ [(''authToken'', ''dummy_token_'' @ decimal now)]) \<and>
   (\<not> isAuthenticated (auth (login r u p now w)) \<longrightarrow>
      token (auth (login r u p now w)) = None \<and>
      asyncStorage (login r u p now w) = asyncStorage w \<and>
      setItem_calls (login r u p now w) = setItem_calls w) \<and>
   (\<not> (u = ''admin'' \<and> p = ''admin123'') \<longrightarrow>
      error_auth (auth (login r u p now w)) = Some ''Invalid username or password'') \<and>
   (u = ''admin'' \<and> p = ''admin123'' \<and> r = Some e \<longrightarrow>
      error_auth (auth (login r u p now w)) = Some (message_or e ''Login failed''))"
  by (cases r)
     (simp_all add: login_def loginSaga_def authenticateUser_def setItem_def loginRequest_def
        loginSuccess_def loginFailure_def HARDCODED_username_def HARDCODED_password_def)

theorem C1_login_witness:
  "isAuthenticated (auth (login None ''admin'' ''admin123'' 42 (initialState :: jsvalue World))) \<and>
   token (auth (login None ''admin'' ''admin123'' 42 (initialState :: jsvalue World)))
     = Some ''dummy_token_42'' \<and>
   setItem_calls (login None ''admin'' ''admin123'' 42 (initialState :: jsvalue World))
     = [(''authToken'', ''dummy_token_42'')] \<and>
   \<not> isAuthenticated (auth (login None ''Admin'' ''admin123'' 42 (initialState :: jsvalue World))) \<and>
   error_auth (auth (login None ''Admin'' ''admin123'' 42 (initialState :: jsvalue World)))
     = Some ''Invalid username or password'' \<and>
   setItem_calls (login None ''Admin'' ''admin123'' 42 (initialState :: jsvalue World)) = [] \<and>
   error_auth (auth (login (Some (Error ''storage is full'')) ''admin'' ''admin123'' 42
                      (initialState :: jsvalue World))) = Some ''storage is full'' \<and>
   error_auth (auth (login (Some NonError) ''admin'' ''admin123'' 42
                      (initialState :: jsvalue World))) = Some ''Login failed''"
  using C1_login [of None "''admin''" "''admin123''" 42 "initialState :: jsvalue World"]
    C1_login [of None "''Admin''" "''admin123''" 42 "initialState :: jsvalue World"]
    C1_login [of "Some (Error ''storage is full'')" "''admin''" "''admin123''" 42
      "initialState :: jsvalue World" "Error ''storage is full''"]
    C1_login [of "Some NonError" "''admin''" "''admin123''" 42
      "initialState :: jsvalue World" NonError]
  by (simp add: initialState_def decimal.simps)

text \<open>
  C1, counterexample. With the right pair and a store that rejects the write, the login
  fails and reports the store's own message.
\<close>

theorem C1_login_store_rejects_counterexample:
  "\<not> isAuthenticated (auth (login (Some (Error ''storage is full'')) ''admin'' ''admin123'' 42
                           (initialState :: jsvalue World))) \<and>
   error_auth (auth (login (Some (Error ''storage is full'')) ''admin'' ''admin123'' 42
                      (initialState :: jsvalue World)))
     = Some ''storage is full''"
  by (simp add: login_def loginSaga_def authenticateUser_def setItem_def loginRequest_def
        loginSuccess_def loginFailure_def HARDCODED_username_def HARDCODED_password_def
        initialState_def)

section \<open>Adding with a quantity that is not positive\<close>

text \<open>
  C3 (as the code has it). For every coin and every quantity for which \<open>qty > 0\<close> is
  false (zero, a negative number, \<open>NaN\<close>) the add handler dispatches nothing: the
  items, the error field and the persisted store are exactly as before, and no error is
  reported.
\<close>

theorem C3_add_nonpositive_ignored:
  "\<not> qty > 0 \<Longrightarrow> handleAddToPortfolio stringify r coin qty w = w"
  by (simp add: handleAddToPortfolio_def)

theorem C3_add_nonpositive_ignored_witness:
  "\<not> Num 0 > 0 \<and> \<not> Num (- 1) > 0 \<and>
   handleAddToPortfolio example_stringify None bitcoin (Num 0) example_world = example_world \<and>
   handleAddToPortfolio example_stringify None bitcoin (Num (- 1)) example_world = example_world"
proof -
  have h0: "\<not> Num 0 > 0" and h1: "\<not> Num (- 1) > 0" by simp_all
  show ?thesis
    using h0 h1
      C3_add_nonpositive_ignored [OF h0, of example_stringify None bitcoin example_world]
      C3_add_nonpositive_ignored [OF h1, of example_stringify None bitcoin example_world]
    by simp
qed

text \<open>
  C3, counterexample. With quantity \<open>0\<close> the handler reports no error at all; and
  \<open>addToPortfolioSaga\<close>, which validates nothing, adds an item of quantity \<open>-1\<close> when
  it is given one.
\<close>

theorem C3_no_validation_error_counterexample:
  "error (portfolio (handleAddToPortfolio example_stringify None bitcoin (Num 0)
                       (initialState :: jsvalue World))) = None \<and>
   error (portfolio (dispatch_addToPortfolioRequest example_stringify None bitcoin (Num (- 1))
                       (initialState :: jsvalue World))) = None \<and>
   items (portfolio (dispatch_addToPortfolioRequest example_stringify None bitcoin (Num (- 1))
                       (initialState :: jsvalue World)))
     = [bitcoin_holding (Num (- 1)) (Num 50000)]"
  by (simp add: handleAddToPortfolio_def add_defs initialState_def bitcoin_def
        bitcoin_holding_def Let_def)

section \<open>Updating a quantity\<close>

lemma update_ok:
  fixes w :: "('v::times) World"
  assumes it0: "find (\<lambda>item. coinId item = cid) (items (portfolio w)) = Some it0"
    and c: "find (\<lambda>c. id_coin c = cid) (coins (crypto w)) = Some c"
  shows "items (portfolio (dispatch_updatePortfolioItemRequest stringify None cid q w))
           = (items (portfolio w))
               [nat (findIndex (\<lambda>item. coinId item = cid) (items (portfolio w))) :=
                  it0\<lparr>quantity := q, currentPrice := current_price c,
                      value_item := current_price c * q\<rparr>] \<and>
         find (\<lambda>item. coinId item = cid)
           (items (portfolio (dispatch_updatePortfolioItemRequest stringify None cid q w)))
         = Some (it0\<lparr>quantity := q, currentPrice := current_price c,
                     value_item := current_price c * q\<rparr>) \<and>
         error (portfolio (dispatch_updatePortfolioItemRequest stringify None cid q w)) = None"
proof -
  let ?P = "\<lambda>item. coinId item = cid"
  let ?xs = "items (portfolio w)"
  let ?U = "it0\<lparr>quantity := q, currentPrice := current_price c, value_item := current_price c * q\<rparr>"
  from it0 have nn: "0 \<le> findIndex ?P ?xs" and at: "?xs ! nat (findIndex ?P ?xs) = it0"
    by (auto simp: find_findIndex split: if_splits)
  from it0 have cid: "coinId it0 = cid"
    by (auto simp: find_Some_iff)
  have its: "items (portfolio (dispatch_updatePortfolioItemRequest stringify None cid q w))
               = ?xs[nat (findIndex ?P ?xs) := ?U]"
    using nn at c cid by (simp add: update_defs Let_def)
  have err: "error (portfolio (dispatch_updatePortfolioItemRequest stringify None cid q w)) = None"
    using nn at c cid by (simp add: update_defs Let_def)
  have "find ?P (?xs[nat (findIndex ?P ?xs) := ?U]) = Some ?U"
    using nn cid by (intro find_update_first) simp_all
  with its err show ?thesis by simp
qed

lemma update_coin_missing:
  fixes w :: "('v::times) World"
  assumes "find (\<lambda>item. coinId item = cid) (items (portfolio w)) = Some it0"
    and "find (\<lambda>c. id_coin c = cid) (coins (crypto w)) = None"
  shows "dispatch_updatePortfolioItemRequest stringify r cid q w
           = w\<lparr>portfolio := (portfolio w)\<lparr>loading := False,
                                 error := Some ''Coin not found in crypto data''\<rparr>\<rparr>"
proof -
  from assms(1) have "\<not> findIndex (\<lambda>item. coinId item = cid) (items (portfolio w)) < 0"
    by (auto simp: find_findIndex split: if_splits)
  with assms(2) show ?thesis
    by (simp add: update_defs Let_def)
qed

lemma update_write_rejected:
  fixes w :: "('v::times) World"
  assumes "find (\<lambda>item. coinId item = cid) (items (portfolio w)) = Some it0"
    and "find (\<lambda>c. id_coin c = cid) (coins (crypto w)) = Some c"
  shows "dispatch_updatePortfolioItemRequest stringify (Some e) cid q w
           = w\<lparr>portfolio := (portfolio w)\<lparr>loading := False,
                                 error := Some ''Failed to save portfolio to AsyncStorage''\<rparr>\<rparr>"
proof -
  from assms(1) have "\<not> findIndex (\<lambda>item. coinId item = cid) (items (portfolio w)) < 0"
    by (auto simp: find_findIndex split: if_splits)
  with assms(2) show ?thesis
    by (simp add: update_defs Let_def)
qed

text \<open>
  C4 (as the code has it). For an existing item \<open>it0\<close> of quantity \<open>q0\<close>, the first
  one with the given \<open>coinId\<close>. With a delta \<open>d > 0\<close>, the coin in the current coin
  list and a store write that resolves, that item, and no other, is replaced: its quantity
  becomes the sum \<open>q0 + d\<close> as the engine computes it, its price the coin's current
  price and its value the engine's product of the two; no error is left. With \<open>d > 0\<close>
  and no coin of that id in the list, the state changes only in that the error
  \<open>Coin not found in crypto data\<close> is reported; with \<open>d > 0\<close>, the coin listed and the
  write rejected, only in that \<open>Failed to save portfolio to AsyncStorage\<close> is reported.
  When \<open>d > 0\<close> is false the handler dispatches nothing and the state is unchanged.
\<close>

theorem C4_update_quantity:
  fixes w :: "('v::{zero,ord,plus,times}) World"
  assumes "find (\<lambda>item. coinId item = cid) (items (portfolio w)) = Some it0"
  shows "(d > 0 \<and> r = None \<and> find (\<lambda>c. id_coin c = cid) (coins (crypto w)) = Some c \<longrightarrow>
            items (portfolio (handleUpdateQuantity stringify r cid d w))
              = (items (portfolio w))
                  [nat (findIndex (\<lambda>item. coinId item = cid) (items (portfolio w))) :=
                     it0\<lparr>quantity := quantity it0 + d, currentPrice := current_price c,
                         value_item := current_price c * (quantity it0 + d)\<rparr>] \<and>
            find (\<lambda>item. coinId item = cid)
              (items (portfolio (handleUpdateQuantity stringify r cid d w)))
              = Some (it0\<lparr>quantity := quantity it0 + d, currentPrice := current_price c,
                          value_item := current_price c * (quantity it0 + d)\<rparr>) \<and>
            error (portfolio (handleUpdateQuantity stringify r cid d w)) = None) \<and>
         (d > 0 \<and> find (\<lambda>c. id_coin c = cid) (coins (crypto w)) = None \<longrightarrow>
            handleUpdateQuantity stringify r cid d w
              = w\<lparr>portfolio := (portfolio w)\<lparr>loading := False,
                                    error := Some ''Coin not found in crypto data''\<rparr>\<rparr>) \<and>
         (d > 0 \<and> r = Some e \<and> find (\<lambda>c. id_coin c = cid) (coins (crypto w)) = Some c \<longrightarrow>
            handleUpdateQuantity stringify r cid d w
              = w\<lparr>portfolio := (portfolio w)\<lparr>loading := False,
                                    error := Some ''Failed to save portfolio to AsyncStorage''\<rparr>\<rparr>) \<and>
         (\<not> d > 0 \<longrightarrow> handleUpdateQuantity stringify r cid d w = w)"
proof (intro conjI impI)
  assume a: "d > 0 \<and> r = None \<and> find (\<lambda>c. id_coin c = cid) (coins (crypto w)) = Some c"
  then have h: "handleUpdateQuantity stringify r cid d w
                  = dispatch_updatePortfolioItemRequest stringify None cid (quantity it0 + d) w"
    using assms by (simp add: handleUpdateQuantity_def)
  from a have c: "find (\<lambda>c. id_coin c = cid) (coins (crypto w)) = Some c" by simp
  note ok = update_ok [OF assms c, of stringify "quantity it0 + d"]
  show "items (portfolio (handleUpdateQuantity stringify r cid d w))
              = (items (portfolio w))
                  [nat (findIndex (\<lambda>item. coinId item = cid) (items (portfolio w))) :=
                     it0\<lparr>quantity := quantity it0 + d, currentPrice := current_price c,
                         value_item := current_price c * (quantity it0 + d)\<rparr>]"
    unfolding h using ok by blast
  show "find (\<lambda>item. coinId item = cid)
              (items (portfolio (handleUpdateQuantity stringify r cid d w)))
              = Some (it0\<lparr>quantity := quantity it0 + d, currentPrice := current_price c,
                          value_item := current_price c * (quantity it0 + d)\<rparr>)"
    unfolding h using ok by blast
  show "error (portfolio (handleUpdateQuantity stringify r cid d w)) = None"
    unfolding h using ok by blast
next
  assume a: "d > 0 \<and> find (\<lambda>c. id_coin c = cid) (coins (crypto w)) = None"
  then show "handleUpdateQuantity stringify r cid d w
              = w\<lparr>portfolio := (portfolio w)\<lparr>loading := False,
                                    error := Some ''Coin not found in crypto data''\<rparr>\<rparr>"
    using assms update_coin_missing [OF assms, of stringify r "quantity it0 + d"]
    by (simp add: handleUpdateQuantity_def)
next
  assume a: "d > 0 \<and> r = Some e \<and> find (\<lambda>c. id_coin c = cid) (coins (crypto w)) = Some c"
  then show "handleUpdateQuantity stringify r cid d w
              = w\<lparr>portfolio := (portfolio w)\<lparr>loading := False,
                                    error := Some ''Failed to save portfolio to AsyncStorage''\<rparr>\<rparr>"
    using assms update_write_rejected [OF assms, of c stringify e "quantity it0 + d"]
    by (simp add: handleUpdateQuantity_def)
next
  assume "\<not> d > 0"
  then show "handleUpdateQuantity stringify r cid d w = w"
    by (simp add: handleUpdateQuantity_def)
qed

theorem C4_update_quantity_witness:
  "find (\<lambda>item. coinId item = ''bitcoin'') (items (portfolio example_world))
     = Some (bitcoin_holding (Num 5) (Num 50000)) \<and>
   Num 1 > 0 \<and> \<not> Num (- 2) > 0 \<and>
   find (\<lambda>c. id_coin c = ''bitcoin'') (coins (crypto example_world)) = Some bitcoin \<and>
   find (\<lambda>item. coinId item = ''bitcoin'')
     (items (portfolio (handleUpdateQuantity example_stringify None ''bitcoin'' (Num 1)
                          example_world)))
     = Some (bitcoin_holding (Num 6) (Num 50000)) \<and>
   handleUpdateQuantity example_stringify None ''bitcoin'' (Num (- 2)) example_world
     = example_world"
proof -
  have h: "find (\<lambda>item. coinId item = ''bitcoin'') (items (portfolio example_world))
             = Some (bitcoin_holding (Num 5) (Num 50000))"
    by simp
  have c: "find (\<lambda>c. id_coin c = ''bitcoin'') (coins (crypto example_world)) = Some bitcoin"
    by simp
  have u: "(bitcoin_holding (Num 5) (Num 50000))
             \<lparr>quantity := Num 5 + Num 1, currentPrice := Num 50000,
              value_item := Num 50000 * (Num 5 + Num 1)\<rparr> = bitcoin_holding (Num 6) (Num 50000)"
    by (simp add: bitcoin_holding_def)
  show ?thesis
    using h c u
      C4_update_quantity [OF h, of "Num 1" None bitcoin example_stringify]
      C4_update_quantity [OF h, of "Num (- 2)" None bitcoin example_stringify]
    by simp
qed

text \<open>
  C4, counterexample. An item of quantity \<open>5\<close> and the delta \<open>-2\<close>: the quantity stays
  \<open>5\<close>, it does not become \<open>3\<close>. With the delta \<open>-5\<close> the quantity stays \<open>5\<close> as
  well, and no error is reported.
\<close>

theorem C4_delta_not_positive_counterexample:
  "map quantity (items (portfolio
     (handleUpdateQuantity example_stringify None ''bitcoin'' (Num (- 2)) example_world)))
     = [Num 5, Num 1] \<and>
   error (portfolio (handleUpdateQuantity example_stringify None ''bitcoin'' (Num (- 2))
                       example_world)) = None \<and>
   map quantity (items (portfolio
     (handleUpdateQuantity example_stringify None ''bitcoin'' (Num (- 5)) example_world)))
     = [Num 5, Num 1] \<and>
   error (portfolio (handleUpdateQuantity example_stringify None ''bitcoin'' (Num (- 5))
                       example_world)) = None"
  by (simp add: handleUpdateQuantity_def)

section \<open>Refreshing the prices\<close>

text \<open>
  The portfolio holds two of the coin whose id is \<open>constructor\<close>; a refresh returns a
  list with bitcoin only. \<open>priceMap\<close> has the one own property \<open>bitcoin\<close>, and
  \<open>payload['constructor']\<close> finds the function every plain object inherits, which is not
  \<open>undefined\<close>: the reducer takes the item for a listed one.
\<close>

lemma constructor_refresh:
  "items (portfolio (dispatch_fetchCryptoDataRequest Object_prototype (Ok [bitcoin]) 7
                       constructor_world))
     = [constructor_holding (Num 2) (Inherited ''constructor'') NotANumber]"
  by (simp add: fetch_defs updatePortfolioPrices_def priceMap_def object_get_def
        object_set_def Object_prototype_def constructor_holding_def Let_def)


text \<open>
  C5 (the code at the failing input). After the same additions, the id \<open>constructor\<close>
  does not appear in the new coin list, yet the item with that \<open>coinId\<close> is not left as
  it was: its price and its value are overwritten.
\<close>

theorem C5_refresh_rewrites_unlisted_item:
  "''constructor'' \<notin> id_coin ` set [bitcoin] \<and>
   items (portfolio
     (handleAddToPortfolio example_stringify None constructor_coin (Num 2)
        (dispatch_fetchCryptoDataRequest Object_prototype (Ok [constructor_coin]) 0
           initialState)))
     = [constructor_holding (Num 2) (Num 10) (Num 20)] \<and>
   items (portfolio
     (dispatch_fetchCryptoDataRequest Object_prototype (Ok [bitcoin]) 7
        (handleAddToPortfolio example_stringify None constructor_coin (Num 2)
           (dispatch_fetchCryptoDataRequest Object_prototype (Ok [constructor_coin]) 0
              initialState))))
     = [constructor_holding (Num 2) (Inherited ''constructor'') NotANumber] \<and>
   constructor_holding (Num 2) (Inherited ''constructor'') NotANumber
     \<noteq> constructor_holding (Num 2) (Num 10) (Num 20)"
  by (simp add: constructor_world_reached constructor_refresh)
     (simp add: constructor_holding_def)

text \<open>
  C6. When the request answers with a status that is not 2xx, or is rejected, the error
  of the crypto slice is set to a message (\<open>Failed to fetch crypto data:\<close> and the status
  text, or the message of the error thrown), and the coin list, the time of the last
  update, the whole portfolio slice and the store are as before.
\<close>

theorem C6_refresh_failure:
  fixes w :: "('v::times) World"
  shows
  "error_crypto (crypto (dispatch_fetchCryptoDataRequest proto (NotOk statusText) now w))
     = Some (''Failed to fetch crypto data: '' @ statusText) \<and>
   error_crypto (crypto (dispatch_fetchCryptoDataRequest proto (Rejected e) now w))
     = Some (message_or e ''Failed to fetch crypto data'') \<and>
   (\<forall>resp \<in> {NotOk statusText, Rejected e}.
      coins (crypto (dispatch_fetchCryptoDataRequest proto resp now w)) = coins (crypto w) \<and>
      lastUpdated (crypto (dispatch_fetchCryptoDataRequest proto resp now w))
        = lastUpdated (crypto w) \<and>
      portfolio (dispatch_fetchCryptoDataRequest proto resp now w) = portfolio w \<and>
      asyncStorage (dispatch_fetchCryptoDataRequest proto resp now w) = asyncStorage w)"
  by (simp add: fetch_defs)

theorem C6_refresh_failure_witness:
  "NotOk ''Too Many Requests'' \<in> {NotOk ''Too Many Requests'', Rejected NonError} \<and>
   error_crypto (crypto (dispatch_fetchCryptoDataRequest Object_prototype
                           (NotOk ''Too Many Requests'') 1 example_world))
     = Some ''Failed to fetch crypto data: Too Many Requests'' \<and>
   coins (crypto (dispatch_fetchCryptoDataRequest Object_prototype
                    (NotOk ''Too Many Requests'') 1 example_world))
     = [bitcoin, ethereum] \<and>
   items (portfolio (dispatch_fetchCryptoDataRequest Object_prototype
                       (NotOk ''Too Many Requests'') 1 example_world))
     = [bitcoin_holding (Num 5) (Num 50000), ethereum_holding (Num 1) (Num 3000)]"
  using C6_refresh_failure [of Object_prototype "''Too Many Requests''" 1 example_world NonError]
  by simp

section \<open>Adding when the store write fails\<close>

text \<open>
  C7 (as the code has it). When an add with \<open>qty > 0\<close> meets a rejected store write,
  the error \<open>Failed to save portfolio to AsyncStorage\<close> is reported and the item list in
  memory is the one before the call: the saga saves before it dispatches the success
  action, so the new entry is never applied. The store is unchanged as well.
\<close>

theorem C7_add_store_failure:
  fixes w :: "('v::{zero,ord,times}) World"
  shows
  "qty > 0 \<Longrightarrow>
   error (portfolio (handleAddToPortfolio stringify (Some e) coin qty w))
     = Some ''Failed to save portfolio to AsyncStorage'' \<and>
   items (portfolio (handleAddToPortfolio stringify (Some e) coin qty w)) = items (portfolio w) \<and>
   asyncStorage (handleAddToPortfolio stringify (Some e) coin qty w) = asyncStorage w \<and>
   setItem_calls (handleAddToPortfolio stringify (Some e) coin qty w) = setItem_calls w"
  by (simp add: handleAddToPortfolio_def add_defs Let_def)

theorem C7_add_store_failure_witness:
  "Num 2 > 0 \<and>
   error (portfolio (handleAddToPortfolio example_stringify (Some (Error ''storage is full''))
                       bitcoin (Num 2) example_world))
     = Some ''Failed to save portfolio to AsyncStorage'' \<and>
   items (portfolio (handleAddToPortfolio example_stringify (Some (Error ''storage is full''))
                       bitcoin (Num 2) example_world))
     = [bitcoin_holding (Num 5) (Num 50000), ethereum_holding (Num 1) (Num 3000)]"
proof -
  have h: "Num 2 > 0" by simp
  show ?thesis
    using h C7_add_store_failure [OF h, of example_stringify "Error ''storage is full''" bitcoin
        example_world]
    by simp
qed

text \<open>
  C7, counterexample. Adding two bitcoins with a store that rejects the write leaves the
  empty portfolio empty, and leaves a portfolio that holds five bitcoins at five: the entry
  is neither added nor replaced.
\<close>

theorem C7_add_not_applied_counterexample:
  "items (portfolio (handleAddToPortfolio example_stringify (Some (Error ''storage is full''))
                       bitcoin (Num 2) (initialState :: jsvalue World))) = [] \<and>
   items (portfolio (handleAddToPortfolio example_stringify (Some (Error ''storage is full''))
                       bitcoin (Num 2) example_world))
     = [bitcoin_holding (Num 5) (Num 50000), ethereum_holding (Num 1) (Num 3000)]"
  by (simp add: handleAddToPortfolio_def add_defs Let_def, simp add: initialState_def)

section \<open>Saving a quantity that is not finite\<close>

text \<open>
  C8 (the code at the failing input). A quantity typed with more than 308 digits is parsed
  to \<open>Infinity\<close>, which passes \<open>qty > 0\<close>: the item is added with quantity and value
  \<open>Infinity\<close>, and the list with that item is what the saga hands to \<open>JSON.stringify\<close>
  and stores. JSON has no text for \<open>Infinity\<close>: \<open>JSON.stringify\<close> writes \<open>null\<close>
  for it, so the text in the store cannot give back the list in memory.
\<close>

theorem C8_infinite_quantity_is_saved:
  "Infinite True > 0 \<and>
   items (portfolio (handleAddToPortfolio stringify None bitcoin (Infinite True)
                       (initialState :: jsvalue World)))
     = [bitcoin_holding (Infinite True) (Num 50000)] \<and>
   quantity (bitcoin_holding (Infinite True) (Num 50000)) = Infinite True \<and>
   value_item (bitcoin_holding (Infinite True) (Num 50000)) = Infinite True \<and>
   asyncStorage (handleAddToPortfolio stringify None bitcoin (Infinite True)
                   (initialState :: jsvalue World)) ''portfolio''
     = Some (stringify [bitcoin_holding (Infinite True) (Num 50000)])"
  by (simp add: handleAddToPortfolio_def add_defs initialState_def bitcoin_def
        bitcoin_holding_def Let_def)

section \<open>Removing an item\<close>

text \<open>
  C9. A removal leaves exactly the items whose \<open>coinId\<close> differs from the one given, so
  none with that \<open>coinId\<close> remains; when no item has it, the portfolio slice is
  unchanged; the error and loading fields are never touched, also when the store write is
  rejected; and a second removal of the same \<open>coinId\<close> leaves the portfolio slice as the
  first one left it (and the store too, when the first write resolved).
\<close>

theorem C9_remove_idempotent:
  fixes w :: "'v World"
  shows
  "items (portfolio (dispatch_removeFromPortfolio stringify r1 cid w))
     = filter (\<lambda>item. coinId item \<noteq> cid) (items (portfolio w)) \<and>
   (\<forall>item \<in> set (items (portfolio (dispatch_removeFromPortfolio stringify r1 cid w))).
      coinId item \<noteq> cid) \<and>
   (cid \<notin> coinId ` set (items (portfolio w)) \<longrightarrow>
      portfolio (dispatch_removeFromPortfolio stringify r1 cid w) = portfolio w) \<and>
   error (portfolio (dispatch_removeFromPortfolio stringify r1 cid w)) = error (portfolio w) \<and>
   loading (portfolio (dispatch_removeFromPortfolio stringify r1 cid w)) = loading (portfolio w) \<and>
   portfolio (dispatch_removeFromPortfolio stringify r2 cid
                (dispatch_removeFromPortfolio stringify r1 cid w))
     = portfolio (dispatch_removeFromPortfolio stringify r1 cid w) \<and>
   (r1 = None \<longrightarrow>
      asyncStorage (dispatch_removeFromPortfolio stringify r2 cid
                      (dispatch_removeFromPortfolio stringify r1 cid w))
        = asyncStorage (dispatch_removeFromPortfolio stringify r1 cid w))"
proof -
  have same: "filter (\<lambda>item. coinId item \<noteq> cid) xs = xs" if "cid \<notin> coinId ` set xs"
    for xs :: "'v PortfolioItem list"
    using that by (induction xs) auto
  show ?thesis
    by (cases r1; cases r2) (auto simp: remove_defs Let_def same)
qed

theorem C9_remove_idempotent_witness:
  "items (portfolio (dispatch_removeFromPortfolio example_stringify None ''bitcoin'' example_world))
     = [ethereum_holding (Num 1) (Num 3000)] \<and>
   ''dogecoin'' \<notin> coinId ` set (items (portfolio example_world)) \<and>
   portfolio (dispatch_removeFromPortfolio example_stringify None ''dogecoin'' example_world)
     = portfolio example_world \<and>
   portfolio (dispatch_removeFromPortfolio example_stringify (Some NonError) ''bitcoin''
               (dispatch_removeFromPortfolio example_stringify None ''bitcoin'' example_world))
     = portfolio (dispatch_removeFromPortfolio example_stringify None ''bitcoin'' example_world)"
proof -
  note btc = C9_remove_idempotent [of example_stringify None "''bitcoin''" example_world
      "Some NonError"]
  note doge = C9_remove_idempotent [of example_stringify None "''dogecoin''" example_world None]
  have removed: "items (portfolio (dispatch_removeFromPortfolio example_stringify None
                   ''bitcoin'' example_world)) = [ethereum_holding (Num 1) (Num 3000)]"
    using btc [THEN conjunct1] by simp
  have absent: "''dogecoin'' \<notin> coinId ` set (items (portfolio example_world))"
    by simp
  have noop: "portfolio (dispatch_removeFromPortfolio example_stringify None ''dogecoin''
                example_world) = portfolio example_world"
    using doge absent by blast
  have twice: "portfolio (dispatch_removeFromPortfolio example_stringify (Some NonError) ''bitcoin''
               (dispatch_removeFromPortfolio example_stringify None ''bitcoin'' example_world))
     = portfolio (dispatch_removeFromPortfolio example_stringify None ''bitcoin'' example_world)"
    using btc by blast
  from removed absent noop twice show ?thesis by blast
qed

section \<open>Updating an item whose coin is no longer listed\<close>

text \<open>
  C10. When the portfolio has an item for \<open>cid\<close> and the current coin list has no coin
  with that id, the update request fails with \<open>Coin not found in crypto data\<close>, and the
  item list, the store and its write log are unchanged; the same holds for the handler
  with a positive delta.
\<close>

theorem C10_update_coin_not_listed:
  fixes w :: "('v::{zero,ord,plus,times}) World"
  assumes "cid \<in> coinId ` set (items (portfolio w))"
    and "cid \<notin> id_coin ` set (coins (crypto w))"
  shows "error (portfolio (dispatch_updatePortfolioItemRequest stringify r cid qty w))
           = Some ''Coin not found in crypto data'' \<and>
         items (portfolio (dispatch_updatePortfolioItemRequest stringify r cid qty w))
           = items (portfolio w) \<and>
         asyncStorage (dispatch_updatePortfolioItemRequest stringify r cid qty w)
           = asyncStorage w \<and>
         setItem_calls (dispatch_updatePortfolioItemRequest stringify r cid qty w)
           = setItem_calls w \<and>
         (0 < d \<longrightarrow>
            error (portfolio (handleUpdateQuantity stringify r cid d w))
              = Some ''Coin not found in crypto data'' \<and>
            items (portfolio (handleUpdateQuantity stringify r cid d w)) = items (portfolio w) \<and>
            asyncStorage (handleUpdateQuantity stringify r cid d w) = asyncStorage w)"
proof -
  from assms(1) have idx: "\<not> findIndex (\<lambda>item. coinId item = cid) (items (portfolio w)) < 0"
    by (auto simp: findIndex_neg_iff)
  from assms(2) have nocoin: "find (\<lambda>c. id_coin c = cid) (coins (crypto w)) = None"
    by (auto simp: find_None_iff)
  have saga: "dispatch_updatePortfolioItemRequest stringify r cid q w
      = w\<lparr>portfolio := (portfolio w)\<lparr>loading := False,
                                     error := Some ''Coin not found in crypto data''\<rparr>\<rparr>" for q
    using idx nocoin by (simp add: update_defs Let_def)
  from idx obtain it where "find (\<lambda>item. coinId item = cid) (items (portfolio w)) = Some it"
    by (auto simp: find_findIndex)
  then show ?thesis
    by (simp add: saga handleUpdateQuantity_def)
qed

theorem C10_update_coin_not_listed_witness:
  "''ethereum'' \<in> coinId ` set (items (portfolio
      (dispatch_fetchCryptoDataRequest Object_prototype (Ok [bitcoin]) 7 example_world))) \<and>
   ''ethereum'' \<notin> id_coin ` set (coins (crypto
      (dispatch_fetchCryptoDataRequest Object_prototype (Ok [bitcoin]) 7 example_world))) \<and>
   error (portfolio (dispatch_updatePortfolioItemRequest example_stringify None ''ethereum'' (Num 4)
      (dispatch_fetchCryptoDataRequest Object_prototype (Ok [bitcoin]) 7 example_world)))
     = Some ''Coin not found in crypto data'' \<and>
   items (portfolio (dispatch_updatePortfolioItemRequest example_stringify None ''ethereum'' (Num 4)
      (dispatch_fetchCryptoDataRequest Object_prototype (Ok [bitcoin]) 7 example_world)))
     = [bitcoin_holding (Num 5) (Num 50000), ethereum_holding (Num 1) (Num 3000)]"
proof -
  let ?w = "dispatch_fetchCryptoDataRequest Object_prototype (Ok [bitcoin]) 7 example_world"
  have its: "items (portfolio ?w)
               = [bitcoin_holding (Num 5) (Num 50000), ethereum_holding (Num 1) (Num 3000)]"
    by (simp add: fetch_defs updatePortfolioPrices_def priceMap_def object_get_def
          object_set_def Object_prototype_def bitcoin_holding_def Let_def)
  have cs: "coins (crypto ?w) = [bitcoin]"
    by (simp add: fetch_defs Let_def)
  have a: "''ethereum'' \<in> coinId ` set (items (portfolio ?w))"
    by (simp add: its)
  have b: "''ethereum'' \<notin> id_coin ` set (coins (crypto ?w))"
    by (simp add: cs)
  show ?thesis
    using a b its C10_update_coin_not_listed [OF a b, of example_stringify None "Num 4" "Num 1"]
    by simp
qed

end
